theory Spec2Isabelle
  imports Complex_Main "HOL-Library.Multiset"
begin

section \<open>Strings, product records, the object store and the outside world\<close>

text \<open>
  A Python \<^verbatim>\<open>str\<close> that comes from the user is a sequence of Unicode code points. The
  keys of dictionaries and the messages the source writes are literals and stay
  \<open>string\<close>.
\<close>

type_synonym pystr = "nat list"

text \<open>
  The code points for which Python's \<^verbatim>\<open>str.isspace\<close> holds, which are the ones
  \<^verbatim>\<open>str.strip()\<close> removes: U+0009 to U+000D, U+001C to U+0020, U+0085, U+00A0, U+1680,
  U+2000 to U+200A, U+2028, U+2029, U+202F, U+205F and U+3000.
\<close>

definition py_isspace :: "nat \<Rightarrow> bool" where
  "py_isspace c =
     ((9 \<le> c \<and> c \<le> 13) \<or> (28 \<le> c \<and> c \<le> 32) \<or> c = 133 \<or> c = 160 \<or> c = 5760 \<or>
      (8192 \<le> c \<and> c \<le> 8202) \<or> c = 8232 \<or> c = 8233 \<or> c = 8239 \<or> c = 8287 \<or>
      c = 12288)"

text \<open>
  A product is a Python dictionary built from a MongoDB document. The two keys that
  \<^verbatim>\<open>search_products.py\<close> writes are fields of their own, \<open>None\<close> while the key is
  absent; every other key of the document (\<^verbatim>\<open>_id\<close>, \<^verbatim>\<open>score\<close>, \<^verbatim>\<open>product_name\<close>, ...)
  is in \<open>other_fields\<close> and is never written by this module.
\<close>

datatype val = Num real | Str string | Strs "string list"

record product =
  rapidfuzz_score :: "real option"
  given_name :: "string option"
  other_fields :: "string \<rightharpoonup> val"

text \<open>
  Dictionaries are objects: a list of results holds references, and two lists may hold
  the same reference. The store is the list of all product objects of one search; a
  reference is an index into it.
\<close>

type_synonym addr = nat
type_synonym heap = "product list"
type_synonym hit = "string \<times> real"

datatype exn =
    ImportError string
  | ConnectionFailure string
  | ConfigurationError string
  | OtherException string

text \<open>
  Everything \<^verbatim>\<open>search_products.py\<close> obtains from outside itself: the environment, the two
  backends and the helpers it imports from \<^verbatim>\<open>utils\<close> at line 21, whose source is not
  under \<^verbatim>\<open>src/\<close> and which are parameters here: \<open>format_search_string\<close>,
  \<open>compute_given_name\<close> and \<open>compute_rapidfuzz_score\<close>. \<open>mongo_connect\<close> is the
  outcome of lines 108 to 112 (\<open>None\<close>: connected); \<open>mongo_find\<close> is the outcome of
  the query of lines 47 to 50, as the backend answers it (text search, sorted by text
  score, limited to 50), given the formatted string; \<open>pinecone_query\<close> is the answer of
  the vector backend.
\<close>

record world =
  pymongo_installed :: bool
  env_MONGO_URI :: "string option"
  mongo_connect :: "string \<Rightarrow> exn option"
  format_search_string :: "pystr \<Rightarrow> pystr"
  mongo_find :: "pystr \<Rightarrow> exn + product list"
  pinecone_query :: "pystr \<Rightarrow> nat \<Rightarrow> exn + hit list"
  compute_given_name :: "product \<Rightarrow> string"
  compute_rapidfuzz_score :: "pystr \<Rightarrow> product \<Rightarrow> real"
  now_isoformat :: string

text \<open>The result dictionary of \<^verbatim>\<open>search_products\<close>, as a list of keys with their values.\<close>

datatype jval = JStr string | JText pystr | JSearch nat "addr list" | JPine nat "hit list"

type_synonym result = "(string \<times> jval) list"

section \<open>The functions of search\_products.py\<close>

text \<open>
  \<^verbatim>\<open>result[key] = f(result)\<close> on the object a reference points to. Every reference of a
  result list points into the store; a dangling one changes nothing.
\<close>

definition update_at :: "(product \<Rightarrow> product) \<Rightarrow> addr \<Rightarrow> heap \<Rightarrow> heap" where
  "update_at f a h = (if a < length h then h[a := f (h ! a)] else h)"

definition set_given_name :: "(product \<Rightarrow> string) \<Rightarrow> addr \<Rightarrow> heap \<Rightarrow> heap" where
  "set_given_name gn = update_at (\<lambda>r. r\<lparr>given_name := Some (gn r)\<rparr>)"

definition set_rapidfuzz_score ::
  "(pystr \<Rightarrow> product \<Rightarrow> real) \<Rightarrow> pystr \<Rightarrow> addr \<Rightarrow> heap \<Rightarrow> heap" where
  "set_rapidfuzz_score score search_string =
     update_at (\<lambda>r. r\<lparr>rapidfuzz_score := Some (score search_string r)\<rparr>)"

text \<open>
  Lines 38 to 55. A failure of \<^verbatim>\<open>create_index\<close> is swallowed by the inner handler and
  changes nothing; any exception of the query is caught and gives the empty list. The
  documents of the answer are fresh objects, stored in the order of the answer.
\<close>

definition search_products_direct :: "world \<Rightarrow> pystr \<Rightarrow> pystr \<Rightarrow> heap \<times> addr list" where
  "search_products_direct w search_string formatted_string =
     (case mongo_find w formatted_string of
        Inl e \<Rightarrow> ([], [])
      | Inr docs \<Rightarrow> (docs, [0..<length docs]))"

text \<open>\<^verbatim>\<open>x.get('rapidfuzz_score', 0)\<close>, the sort key of line 78.\<close>

definition score_key :: "heap \<Rightarrow> addr \<Rightarrow> real" where
  "score_key h a = (case rapidfuzz_score (h ! a) of None \<Rightarrow> 0 | Some v \<Rightarrow> v)"

text \<open>
  \<^verbatim>\<open>list.sort(key=k, reverse=True)\<close>: Python reverses the list, sorts it stably in
  ascending order of the key and reverses it again.
\<close>

definition sort_reverse :: "('a \<Rightarrow> real) \<Rightarrow> 'a list \<Rightarrow> 'a list" where
  "sort_reverse k xs = rev (sort_key k (rev xs))"

text \<open>Line 78.\<close>

definition rank_by_rapidfuzz :: "heap \<Rightarrow> addr list \<Rightarrow> addr list" where
  "rank_by_rapidfuzz h results = sort_reverse (score_key h) results"

text \<open>
  Lines 69 to 80. The list passed in is sorted in place and returned; the caller passes
  a copy, so the list value returned is the only one that changes order. The records
  are changed in the store.
\<close>

definition apply_rapidfuzz_scoring ::
  "(pystr \<Rightarrow> product \<Rightarrow> real) \<Rightarrow> pystr \<Rightarrow> heap \<Rightarrow> addr list \<Rightarrow> heap \<times> addr list" where
  "apply_rapidfuzz_scoring score search_string h results =
     (if results = [] then (h, results)
      else (let h' = fold (set_rapidfuzz_score score search_string) results h
            in (h', rank_by_rapidfuzz h' results)))"

text \<open>
  Modelled from the spec: \<^verbatim>\<open>pinecone_integration.search_pinecone\<close> is not under \<^verbatim>\<open>src/\<close>.
  Section 7 of the specification: a backend query error is caught at the call site and
  treated as zero results for that path. The function therefore returns a list in every
  case; the result type keeps the exceptional outcome, which \<^verbatim>\<open>search_products\<close> would
  hand to its outer handler.
\<close>

definition search_pinecone :: "world \<Rightarrow> pystr \<Rightarrow> nat \<Rightarrow> exn + hit list" where
  "search_pinecone w search_string top_k =
     (case pinecone_query w search_string top_k of
        Inl e \<Rightarrow> Inr []
      | Inr hits \<Rightarrow> Inr hits)"

definition error_result :: "string \<Rightarrow> result" where
  "error_result msg = [(''error'', JStr msg)]"

text \<open>The outer handlers of lines 171 to 178, and the handler of lines 114 to 116.\<close>

fun handle_exception :: "exn \<Rightarrow> result" where
  "handle_exception (ImportError m) =
     error_result ''Required packages not installed. Please run: pip install -r requirements.txt''"
| "handle_exception (ConnectionFailure m) = error_result (''Error during search: '' @ m)"
| "handle_exception (ConfigurationError m) = error_result (''Error during search: '' @ m)"
| "handle_exception (OtherException m) = error_result (''Error during search: '' @ m)"

fun handle_connection_error :: "exn \<Rightarrow> result" where
  "handle_connection_error (ConnectionFailure m) =
     error_result (''MongoDB connection failed: '' @ m)"
| "handle_connection_error (ConfigurationError m) =
     error_result (''MongoDB connection failed: '' @ m)"
| "handle_connection_error e = handle_exception e"

text \<open>
  Lines 94 to 178. The function returns the result dictionary; the store is returned
  with it, since the lists of the dictionary hold references into it.
\<close>

definition search_products :: "world \<Rightarrow> pystr \<Rightarrow> heap \<times> result" where
  "search_products w search_string =
     (if \<not> pymongo_installed w then ([], handle_exception (ImportError ''pymongo''))
      else (case env_MONGO_URI w of
        None \<Rightarrow> ([], error_result ''MONGO_URI not set'')
      | Some mongo_uri \<Rightarrow>
          if mongo_uri = [] then ([], error_result ''MONGO_URI not set'')
          else (case mongo_connect w mongo_uri of
            Some e \<Rightarrow> ([], handle_connection_error e)
          | None \<Rightarrow>
             (let formatted_string = format_search_string w search_string;
                  (h1, direct_results) =
                     search_products_direct w search_string formatted_string;
                  h2 = fold (set_given_name (compute_given_name w)) direct_results h1;
                  (h3, direct_results_with_rapidfuzz) =
                     apply_rapidfuzz_scoring (compute_rapidfuzz_score w) search_string
                       h2 direct_results;
                  h4 = fold (set_given_name (compute_given_name w))
                         direct_results_with_rapidfuzz h3
              in (case search_pinecone w search_string 10 of
                    Inl e \<Rightarrow> (h4, handle_exception e)
                  | Inr pinecone_results \<Rightarrow>
                      (h4,
                       [(''timestamp'', JStr (now_isoformat w)),
                        (''input_string'', JText search_string),
                        (''formatted_string'', JText formatted_string),
                        (''direct_search'',
                           JSearch (length direct_results) direct_results),
                        (''rapidfuzz_search'',
                           JSearch (length direct_results_with_rapidfuzz)
                             direct_results_with_rapidfuzz),
                        (''pinecone_search'',
                           JPine (length pinecone_results) pinecone_results)]))))))"

text \<open>
  Lines 218 to 235 of \<^verbatim>\<open>main\<close>: the check of the query, the call of
  \<^verbatim>\<open>search_products\<close> and the check of its result. \<^verbatim>\<open>not s.strip()\<close> holds exactly
  when every code point of \<^verbatim>\<open>s\<close> is whitespace. The first component lists the queries
  \<^verbatim>\<open>search_products\<close> was called with, the second is the exit status of the process
  (0 when \<^verbatim>\<open>main\<close> returns).
\<close>

definition main :: "world \<Rightarrow> pystr \<Rightarrow> pystr list \<times> nat" where
  "main w search_string =
     (if list_all py_isspace search_string then ([], 1)
      else (let results = snd (search_products w search_string)
            in if ''error'' \<in> set (map fst results) then ([search_string], 1)
               else ([search_string], 0)))"

text \<open>
  What the loops of lines 128 to 129, 73 to 75 and 136 to 137 do to one record, and what
  the three together leave in it: the given name, then the score computed on the record
  that carries that name, then the given name again.
\<close>

definition named :: "world \<Rightarrow> product \<Rightarrow> product" where
  "named w r = r\<lparr>given_name := Some (compute_given_name w r)\<rparr>"

definition scored :: "world \<Rightarrow> pystr \<Rightarrow> product \<Rightarrow> product" where
  "scored w search_string r =
     r\<lparr>rapidfuzz_score := Some (compute_rapidfuzz_score w search_string r)\<rparr>"

definition enriched :: "world \<Rightarrow> pystr \<Rightarrow> product \<Rightarrow> product" where
  "enriched w search_string d = named w (scored w search_string (named w d))"

text \<open>The entry \<^verbatim>\<open>pinecone_search\<close> of the result, lines 156 to 159.\<close>

definition pinecone_entry :: "world \<Rightarrow> pystr \<Rightarrow> jval" where
  "pinecone_entry w search_string =
     (case pinecone_query w search_string 10 of
        Inl e \<Rightarrow> JPine 0 []
      | Inr hits \<Rightarrow> JPine (length hits) hits)"

text \<open>
  Sample documents and a sample world, used to run the functions. The sample formatter
  drops commas, and the sample scorer adds the length of the query to the length of the
  record's text, so that a score tells which of the two strings the scorer was given.
\<close>

definition doc :: "string \<Rightarrow> product" where
  "doc name = \<lparr>rapidfuzz_score = None, given_name = None,
               other_fields = [''search_string'' \<mapsto> Str name]\<rparr>"

definition name_of :: "product \<Rightarrow> string" where
  "name_of r = (case other_fields r ''search_string'' of Some (Str s) \<Rightarrow> s | _ \<Rightarrow> ''N/A'')"

definition sample_docs :: "product list" where
  "sample_docs = [doc ''cola'', doc ''milk chocolate'', doc ''soda'']"

definition sample_score :: "pystr \<Rightarrow> product \<Rightarrow> real" where
  "sample_score s r = real (length s) + real (length (name_of r))"

definition sample_world :: world where
  "sample_world =
     \<lparr>pymongo_installed = True,
      env_MONGO_URI = Some ''mongodb://localhost/off'',
      mongo_connect = (\<lambda>uri. None),
      format_search_string = filter (\<lambda>c. c \<noteq> 44),
      mongo_find = (\<lambda>s. Inr sample_docs),
      pinecone_query = (\<lambda>s k. Inr [(''p1'', 1)]),
      compute_given_name = name_of,
      compute_rapidfuzz_score = sample_score,
      now_isoformat = ''2024-01-01T00:00:00''\<rparr>"

section \<open>Sorting with reverse=True\<close>

lemma mset_sort_reverse: "mset (sort_reverse k xs) = mset xs"
  by (simp add: sort_reverse_def)

lemma set_sort_reverse: "set (sort_reverse k xs) = set xs"
  by (simp add: sort_reverse_def)

lemma length_sort_reverse: "length (sort_reverse k xs) = length xs"
  by (simp add: sort_reverse_def)

lemma distinct_sort_reverse: "distinct (sort_reverse k xs) = distinct xs"
  by (simp add: sort_reverse_def)

lemma sorted_sort_reverse: "sorted_wrt (\<lambda>a b. k b \<le> k a) (sort_reverse k xs)"
proof -
  have "sorted (map k (sort_key k (rev xs)))" by simp
  then have "sorted_wrt (\<lambda>a b. k a \<le> k b) (sort_key k (rev xs))"
    by (simp add: sorted_map)
  then show ?thesis by (simp add: sort_reverse_def sorted_wrt_rev)
qed

lemma stable_sort_reverse:
  "filter (\<lambda>a. k a = v) (sort_reverse k xs) = filter (\<lambda>a. k a = v) xs"
proof -
  have "filter (\<lambda>a. k a = v) (sort_reverse k xs) =
      rev (filter (\<lambda>a. k a = v) (sort_key k (rev xs)))"
    by (simp add: sort_reverse_def rev_filter)
  also have "\<dots> = rev (filter (\<lambda>a. k a = v) (rev xs))"
    by (simp add: sort_key_stable)
  also have "\<dots> = filter (\<lambda>a. k a = v) xs"
    by (simp add: rev_filter)
  finally show ?thesis .
qed

section \<open>Updates of the store\<close>

lemma length_fold_update_at: "length (fold (update_at f) rs h) = length h"
  by (induction rs arbitrary: h) (simp_all add: update_at_def)

lemma nth_fold_update_at:
  "distinct rs \<Longrightarrow> i < length h \<Longrightarrow>
     fold (update_at f) rs h ! i = (if i \<in> set rs then f (h ! i) else h ! i)"
proof (induction rs arbitrary: h)
  case Nil
  then show ?case by simp
next
  case (Cons a rs)
  have len: "i < length (update_at f a h)"
    using Cons.prems by (simp add: update_at_def)
  from Cons.prems have d: "distinct rs" and na: "a \<notin> set rs" by simp_all
  have "fold (update_at f) (a # rs) h ! i = fold (update_at f) rs (update_at f a h) ! i"
    by simp
  also have "\<dots> = (if i \<in> set rs then f (update_at f a h ! i) else update_at f a h ! i)"
    using Cons.IH [OF d len] .
  also have "\<dots> = (if i \<in> set (a # rs) then f (h ! i) else h ! i)"
    using na Cons.prems(2) by (cases "i = a") (auto simp: update_at_def)
  finally show ?case .
qed

lemma fold_update_at_all:
  assumes "distinct rs" and "set rs = {..<length h}"
  shows "fold (update_at f) rs h = map f h"
proof (rule nth_equalityI)
  show "length (fold (update_at f) rs h) = length (map f h)"
    by (simp add: length_fold_update_at)
next
  fix i assume "i < length (fold (update_at f) rs h)"
  then have i: "i < length h" by (simp add: length_fold_update_at)
  with assms show "fold (update_at f) rs h ! i = map f h ! i"
    by (simp add: nth_fold_update_at)
qed

lemma apply_rapidfuzz_scoring_eq:
  "apply_rapidfuzz_scoring score q h rs =
     (fold (set_rapidfuzz_score score q) rs h,
      rank_by_rapidfuzz (fold (set_rapidfuzz_score score q) rs h) rs)"
  by (simp add: apply_rapidfuzz_scoring_def rank_by_rapidfuzz_def sort_reverse_def Let_def)

lemma mset_rank: "mset (rank_by_rapidfuzz h rs) = mset rs"
  by (simp add: rank_by_rapidfuzz_def mset_sort_reverse)

lemma sorted_rank:
  "sorted_wrt (\<lambda>a b. score_key h b \<le> score_key h a) (rank_by_rapidfuzz h rs)"
  by (simp add: rank_by_rapidfuzz_def sorted_sort_reverse)

lemma score_present_after_fold:
  "a < length h \<Longrightarrow> a \<in> set rs \<or> rapidfuzz_score (h ! a) \<noteq> None \<Longrightarrow>
     rapidfuzz_score (fold (set_rapidfuzz_score score s) rs h ! a) \<noteq> None"
proof (induction rs arbitrary: h)
  case Nil
  then show ?case by simp
next
  case (Cons b rs)
  let ?h = "set_rapidfuzz_score score s b h"
  have len: "a < length ?h"
    using Cons.prems(1) by (simp add: set_rapidfuzz_score_def update_at_def)
  have "a \<in> set rs \<or> rapidfuzz_score (?h ! a) \<noteq> None"
    using Cons.prems by (cases "a = b") (auto simp: set_rapidfuzz_score_def update_at_def)
  from Cons.IH [OF len this] show ?case by simp
qed

lemma score_key_after_scoring:
  assumes "a < length h" and "a \<in> set rs"
  shows "rapidfuzz_score (fst (apply_rapidfuzz_scoring score s h rs) ! a) =
     Some (score_key (fst (apply_rapidfuzz_scoring score s h rs)) a)"
proof -
  have "rapidfuzz_score (fold (set_rapidfuzz_score score s) rs h ! a) \<noteq> None"
    using assms by (intro score_present_after_fold) simp_all
  then show ?thesis
    by (auto simp: apply_rapidfuzz_scoring_eq score_key_def)
qed

lemma score_after_scoring:
  assumes "distinct rs" and "a < length h" and "a \<in> set rs"
  shows "rapidfuzz_score (fst (apply_rapidfuzz_scoring score s h rs) ! a) =
     Some (score s (h ! a))"
  using assms
  by (simp add: apply_rapidfuzz_scoring_eq set_rapidfuzz_score_def nth_fold_update_at)

section \<open>The search as a whole\<close>

lemma search_pinecone_eq:
  "search_pinecone w q 10 =
     Inr (case pinecone_query w q 10 of Inl e \<Rightarrow> [] | Inr hits \<Rightarrow> hits)"
  by (simp add: search_pinecone_def split: sum.splits)

lemma pinecone_entry_eq:
  "JPine (length (case pinecone_query w q 10 of Inl e \<Rightarrow> [] | Inr hits \<Rightarrow> hits))
     (case pinecone_query w q 10 of Inl e \<Rightarrow> [] | Inr hits \<Rightarrow> hits) = pinecone_entry w q"
  by (simp add: pinecone_entry_def split: sum.splits)

lemma search_products_success:
  assumes "pymongo_installed w" and "env_MONGO_URI w = Some uri" and "uri \<noteq> []"
    and "mongo_connect w uri = None"
    and "mongo_find w (format_search_string w q) = Inr docs"
  shows "search_products w q =
     (map (enriched w q) docs,
      [(''timestamp'', JStr (now_isoformat w)),
       (''input_string'', JText q),
       (''formatted_string'', JText (format_search_string w q)),
       (''direct_search'', JSearch (length docs) [0..<length docs]),
       (''rapidfuzz_search'', JSearch (length docs)
           (rank_by_rapidfuzz (map (scored w q) (map (named w) docs)) [0..<length docs])),
       (''pinecone_search'', pinecone_entry w q)])"
proof -
  define n where "n = length docs"
  define h2 where "h2 = map (named w) docs"
  define h3 where "h3 = map (scored w q) h2"
  define fz where "fz = rank_by_rapidfuzz h3 [0..<n]"
  define h4 where "h4 = map (enriched w q) docs"
  have d: "search_products_direct w q (format_search_string w q) = (docs, [0..<n])"
    using assms(5) by (simp add: search_products_direct_def n_def)
  have h2: "fold (set_given_name (compute_given_name w)) [0..<n] docs = h2"
    unfolding set_given_name_def named_def [abs_def] h2_def n_def
    by (rule fold_update_at_all) auto
  have h3: "fold (set_rapidfuzz_score (compute_rapidfuzz_score w) q) [0..<n] h2 = h3"
    unfolding set_rapidfuzz_score_def scored_def [abs_def] h3_def
    by (rule fold_update_at_all) (auto simp: h2_def n_def)
  have a: "apply_rapidfuzz_scoring (compute_rapidfuzz_score w) q h2 [0..<n] = (h3, fz)"
    by (simp add: apply_rapidfuzz_scoring_eq h3 fz_def)
  have "distinct fz"
    by (simp add: fz_def rank_by_rapidfuzz_def distinct_sort_reverse)
  moreover have "set fz = {..<n}"
    by (auto simp: fz_def rank_by_rapidfuzz_def set_sort_reverse)
  ultimately have "fold (set_given_name (compute_given_name w)) fz h3 = map (named w) h3"
    unfolding set_given_name_def named_def [abs_def]
    by (intro fold_update_at_all) (auto simp: h3_def h2_def n_def)
  also have "\<dots> = h4"
    by (simp add: enriched_def h4_def h3_def h2_def)
  finally have h4: "fold (set_given_name (compute_given_name w)) fz h3 = h4" .
  have l: "length fz = n"
    by (simp add: rank_by_rapidfuzz_def length_sort_reverse fz_def)
  have "search_products w q =
     (h4,
      [(''timestamp'', JStr (now_isoformat w)),
       (''input_string'', JText q),
       (''formatted_string'', JText (format_search_string w q)),
       (''direct_search'', JSearch n [0..<n]),
       (''rapidfuzz_search'', JSearch n fz),
       (''pinecone_search'', pinecone_entry w q)])"
    using assms(1-4)
    by (simp add: search_products_def d h2 a h4 l search_pinecone_eq pinecone_entry_eq)
  then show ?thesis
    by (simp only: h4_def fz_def h3_def h2_def n_def)
qed

lemma search_products_lexical_failure:
  assumes "pymongo_installed w" and "env_MONGO_URI w = Some uri" and "uri \<noteq> []"
    and "mongo_connect w uri = None"
    and "mongo_find w (format_search_string w q) = Inl e"
  shows "search_products w q =
     ([],
      [(''timestamp'', JStr (now_isoformat w)),
       (''input_string'', JText q),
       (''formatted_string'', JText (format_search_string w q)),
       (''direct_search'', JSearch 0 []),
       (''rapidfuzz_search'', JSearch 0 []),
       (''pinecone_search'', pinecone_entry w q)])"
proof -
  have d: "search_products_direct w q (format_search_string w q) = ([], [])"
    using assms(5) by (simp add: search_products_direct_def)
  have a: "apply_rapidfuzz_scoring (compute_rapidfuzz_score w) q [] [] = ([], [])"
    by (simp add: apply_rapidfuzz_scoring_def)
  show ?thesis
    using assms(1-4)
    by (simp add: search_products_def d a search_pinecone_eq pinecone_entry_eq)
qed

lemma keys_handle_exception: "map fst (handle_exception e) = [''error'']"
  by (cases e) (simp_all add: error_result_def)

lemma keys_handle_connection_error: "map fst (handle_connection_error e) = [''error'']"
  by (cases e) (simp_all add: error_result_def)

lemma search_products_unavailable:
  assumes "\<not> pymongo_installed w \<or> env_MONGO_URI w = None \<or> env_MONGO_URI w = Some [] \<or>
     (\<exists>uri e. env_MONGO_URI w = Some uri \<and> mongo_connect w uri = Some e)"
  shows "fst (search_products w q) = [] \<and> map fst (snd (search_products w q)) = [''error'']"
  using assms
  by (auto simp: search_products_def keys_handle_exception keys_handle_connection_error
      error_result_def simp del: handle_exception.simps handle_connection_error.simps)

lemma search_products_cases:
  obtains (unavailable) "fst (search_products w q) = []"
      "map fst (snd (search_products w q)) = [''error'']"
  | (lexical_failure) uri e where "pymongo_installed w" "env_MONGO_URI w = Some uri"
      "uri \<noteq> []" "mongo_connect w uri = None"
      "mongo_find w (format_search_string w q) = Inl e"
  | (success) uri docs where "pymongo_installed w" "env_MONGO_URI w = Some uri"
      "uri \<noteq> []" "mongo_connect w uri = None"
      "mongo_find w (format_search_string w q) = Inr docs"
proof (cases "pymongo_installed w \<and>
    (\<exists>uri. env_MONGO_URI w = Some uri \<and> uri \<noteq> [] \<and> mongo_connect w uri = None)")
  case True
  then obtain uri where u: "pymongo_installed w" "env_MONGO_URI w = Some uri"
      "uri \<noteq> []" "mongo_connect w uri = None" by blast
  show ?thesis
  proof (cases "mongo_find w (format_search_string w q)")
    case (Inl e)
    with u show ?thesis by (rule lexical_failure)
  next
    case (Inr docs)
    with u show ?thesis by (rule success)
  qed
next
  case False
  then have "\<not> pymongo_installed w \<or> env_MONGO_URI w = None \<or> env_MONGO_URI w = Some [] \<or>
     (\<exists>uri e. env_MONGO_URI w = Some uri \<and> mongo_connect w uri = Some e)"
    by (cases "env_MONGO_URI w") auto
  from search_products_unavailable [OF this, of q] show ?thesis
    by (intro unavailable) simp_all
qed

lemma map_of_only_error:
  assumes "map fst r = [''error'']" and "k \<noteq> ''error''"
  shows "map_of r k = None"
proof -
  have "k \<notin> set (map fst r)" using assms by simp
  then show ?thesis by (simp add: map_of_eq_None_iff)
qed

lemma sample_connected:
  "pymongo_installed sample_world"
  "env_MONGO_URI sample_world = Some ''mongodb://localhost/off''"
  "''mongodb://localhost/off'' \<noteq> []"
  "mongo_connect sample_world ''mongodb://localhost/off'' = None"
  by (simp_all add: sample_world_def)

section \<open>Claims about scoring and ranking\<close>

text \<open>
  C3: the fuzzy scorer is applied to the original raw query string, not to the normalised
  one. After a search that reached the backend, the score stored in every record is the
  scorer's value at the raw \<open>q\<close> (and at the record as it was when scored, carrying its
  given name), whatever the scorer and the formatter are; and
  \<^verbatim>\<open>apply_rapidfuzz_scoring\<close> stores, for each record of its list, the scorer's value at
  the \<^verbatim>\<open>search_string\<close> it was given.
\<close>

theorem scorer_receives_raw_query:
  assumes "pymongo_installed w" and "env_MONGO_URI w = Some uri" and "uri \<noteq> []"
    and "mongo_connect w uri = None"
    and "mongo_find w (format_search_string w q) = Inr docs"
  shows "(\<forall>i. i < length docs \<longrightarrow>
            rapidfuzz_score (fst (search_products w q) ! i) =
              Some (compute_rapidfuzz_score w q (named w (docs ! i)))) \<and>
         (\<forall>score s h rs a. distinct rs \<and> a < length h \<and> a \<in> set rs \<longrightarrow>
            rapidfuzz_score (fst (apply_rapidfuzz_scoring score s h rs) ! a) =
              Some (score s (h ! a)))"
proof (intro conjI allI impI)
  fix i assume "i < length docs"
  then show "rapidfuzz_score (fst (search_products w q) ! i) =
      Some (compute_rapidfuzz_score w q (named w (docs ! i)))"
    by (simp add: search_products_success [OF assms] enriched_def named_def scored_def)
next
  fix score :: "pystr \<Rightarrow> product \<Rightarrow> real" and s and h :: heap and rs a
  assume "distinct rs \<and> a < length h \<and> a \<in> set rs"
  then show "rapidfuzz_score (fst (apply_rapidfuzz_scoring score s h rs) ! a) =
      Some (score s (h ! a))"
    by (simp add: score_after_scoring)
qed

text \<open>
  In the sample world the formatter turns the query \<open>[77, 44, 50]\<close> into \<open>[77, 50]\<close>;
  the record of 14 characters gets the score 3 + 14, the length of the raw query counted.
\<close>

theorem scorer_receives_raw_query_witness:
  "format_search_string sample_world [77, 44, 50] = [77, 50] \<and>
   rapidfuzz_score (fst (search_products sample_world [77, 44, 50]) ! 1) = Some 17"
proof -
  have f: "mongo_find sample_world (format_search_string sample_world [77, 44, 50]) =
      Inr sample_docs"
    by (simp add: sample_world_def)
  have l: "1 < length sample_docs" by (simp add: sample_docs_def)
  from scorer_receives_raw_query [OF sample_connected f] l
  have "rapidfuzz_score (fst (search_products sample_world [77, 44, 50]) ! 1) =
      Some (compute_rapidfuzz_score sample_world [77, 44, 50]
        (named sample_world (sample_docs ! 1)))"
    by blast
  then show ?thesis
    by (simp add: sample_world_def sample_docs_def sample_score_def named_def name_of_def
        doc_def)
qed

text \<open>
  C4: fuzzy re-ranking is a stable descending sort by the record's similarity score. For
  every store and every input list, the list returned is in descending order of the sort
  key, the records of any one key value stand in their input order, and the sort key of
  every record of the list is the \<^verbatim>\<open>rapidfuzz_score\<close> the record now carries.
\<close>

theorem apply_rapidfuzz_scoring_stable_descending:
  assumes "apply_rapidfuzz_scoring score s h results = (h', out)"
  shows "sorted_wrt (\<lambda>a b. score_key h' b \<le> score_key h' a) out \<and>
         (\<forall>v. filter (\<lambda>a. score_key h' a = v) out =
              filter (\<lambda>a. score_key h' a = v) results) \<and>
         (\<forall>a. a \<in> set results \<and> a < length h \<longrightarrow>
              rapidfuzz_score (h' ! a) = Some (score_key h' a))"
proof -
  from assms have h': "h' = fst (apply_rapidfuzz_scoring score s h results)"
    by simp
  from assms have "out = snd (apply_rapidfuzz_scoring score s h results)"
    by simp
  then have out: "out = rank_by_rapidfuzz h' results"
    by (simp add: h' apply_rapidfuzz_scoring_eq)
  have 1: "sorted_wrt (\<lambda>a b. score_key h' b \<le> score_key h' a) out"
    unfolding out by (rule sorted_rank)
  have 2: "filter (\<lambda>a. score_key h' a = v) out = filter (\<lambda>a. score_key h' a = v) results"
    for v
    unfolding out rank_by_rapidfuzz_def by (rule stable_sort_reverse)
  have 3: "rapidfuzz_score (h' ! a) = Some (score_key h' a)"
    if "a \<in> set results \<and> a < length h" for a
    unfolding h' using that by (simp add: score_key_after_scoring)
  from 1 2 3 show ?thesis by blast
qed

text \<open>
  Three records with the scores 5, 15 and 5: the second comes first, and the two records
  of score 5 keep their order.
\<close>

theorem apply_rapidfuzz_scoring_stable_descending_witness:
  "snd (apply_rapidfuzz_scoring sample_score [99] sample_docs [0, 1, 2]) = [1, 0, 2] \<and>
   sorted_wrt
     (\<lambda>a b. score_key (fst (apply_rapidfuzz_scoring sample_score [99] sample_docs [0, 1, 2])) b
           \<le> score_key (fst (apply_rapidfuzz_scoring sample_score [99] sample_docs [0, 1, 2])) a)
     (snd (apply_rapidfuzz_scoring sample_score [99] sample_docs [0, 1, 2])) \<and>
   filter (\<lambda>a. score_key (fst (apply_rapidfuzz_scoring sample_score [99] sample_docs [0, 1, 2])) a = 5)
     (snd (apply_rapidfuzz_scoring sample_score [99] sample_docs [0, 1, 2])) = [0, 2]"
proof -
  let ?r = "apply_rapidfuzz_scoring sample_score [99] sample_docs [0, 1, 2]"
  note t = apply_rapidfuzz_scoring_stable_descending [OF prod.collapse [symmetric], of sample_score "[99]" sample_docs "[0, 1, 2]"]
  have k: "map (score_key (fst ?r)) [0, 1, 2] = [5, 15, 5]"
    by (simp add: apply_rapidfuzz_scoring_eq set_rapidfuzz_score_def update_at_def score_key_def
        sample_docs_def sample_score_def name_of_def doc_def)
  have e: "snd ?r = [1, 0, 2]"
    using k by (simp add: apply_rapidfuzz_scoring_eq rank_by_rapidfuzz_def sort_reverse_def)
  have "filter (\<lambda>a. score_key (fst ?r) a = 5) (snd ?r) =
      filter (\<lambda>a. score_key (fst ?r) a = 5) [0, 1, 2]"
    using t by blast
  also have "\<dots> = [0, 2]" using k by simp
  finally have f: "filter (\<lambda>a. score_key (fst ?r) a = 5) (snd ?r) = [0, 2]" .
  from t e f show ?thesis by blast
qed

text \<open>
  C5: ranking never fails on a record that lacks the score key. Such a record has the
  sort key 0, the least value of the score range: the ranking is the same as if the
  record carried the score 0, it returns every record of its input, every record with a
  positive score stands before the record without the key, and when no record carries a
  negative score the record without the key has the least key of all.
\<close>

theorem missing_score_key_ranks_as_zero:
  assumes "a < length h" and "rapidfuzz_score (h ! a) = None"
  shows "score_key h a = 0 \<and>
         rank_by_rapidfuzz (h[a := (h ! a)\<lparr>rapidfuzz_score := Some 0\<rparr>]) rs =
           rank_by_rapidfuzz h rs \<and>
         mset (rank_by_rapidfuzz h rs) = mset rs \<and>
         (\<forall>b v i j. rapidfuzz_score (h ! b) = Some v \<and> 0 < v \<and>
             i < length (rank_by_rapidfuzz h rs) \<and> j < length (rank_by_rapidfuzz h rs) \<and>
             rank_by_rapidfuzz h rs ! i = a \<and> rank_by_rapidfuzz h rs ! j = b \<longrightarrow> j < i) \<and>
         ((\<forall>b v. b \<in> set rs \<and> rapidfuzz_score (h ! b) = Some v \<longrightarrow> 0 \<le> v) \<longrightarrow>
            (\<forall>b. b \<in> set rs \<longrightarrow> score_key h a \<le> score_key h b))"
proof -
  let ?out = "rank_by_rapidfuzz h rs"
  have ka: "score_key h a = 0"
    using assms(2) by (simp add: score_key_def)
  have "score_key (h[a := (h ! a)\<lparr>rapidfuzz_score := Some 0\<rparr>]) x = score_key h x" for x
    using assms by (cases "x = a") (simp_all add: score_key_def)
  then have "score_key (h[a := (h ! a)\<lparr>rapidfuzz_score := Some 0\<rparr>]) = score_key h"
    by (rule ext)
  then have same: "rank_by_rapidfuzz (h[a := (h ! a)\<lparr>rapidfuzz_score := Some 0\<rparr>]) rs = ?out"
    by (simp add: rank_by_rapidfuzz_def)
  have pos: "j < i"
    if "rapidfuzz_score (h ! b) = Some v \<and> 0 < v \<and> i < length ?out \<and> j < length ?out \<and>
        ?out ! i = a \<and> ?out ! j = b" for b v i j
  proof (rule ccontr)
    assume "\<not> j < i"
    moreover have "i \<noteq> j" using that assms(2) by auto
    ultimately have ij: "i < j" by simp
    from that have jl: "j < length ?out" by simp
    have "score_key h (?out ! j) \<le> score_key h (?out ! i)"
      using sorted_wrt_nth_less [OF sorted_rank ij jl] by simp
    with that have "score_key h b \<le> score_key h a" by simp
    moreover have "score_key h b = v" using that by (simp add: score_key_def)
    ultimately show False using that ka by simp
  qed
  have low: "score_key h a \<le> score_key h b"
    if "\<forall>b v. b \<in> set rs \<and> rapidfuzz_score (h ! b) = Some v \<longrightarrow> 0 \<le> v" and "b \<in> set rs" for b
    using that ka by (cases "rapidfuzz_score (h ! b)") (auto simp: score_key_def)
  from ka same mset_rank [of h rs] pos low show ?thesis by blast
qed

text \<open>A record without the key after a record with the score 3.\<close>

theorem missing_score_key_ranks_as_zero_witness:
  "rapidfuzz_score ([doc ''a'', (doc ''b'')\<lparr>rapidfuzz_score := Some 3\<rparr>] ! 0) = None \<and>
   score_key [doc ''a'', (doc ''b'')\<lparr>rapidfuzz_score := Some 3\<rparr>] 0 = 0 \<and>
   rank_by_rapidfuzz [doc ''a'', (doc ''b'')\<lparr>rapidfuzz_score := Some 3\<rparr>] [0, 1] = [1, 0]"
proof -
  let ?h = "[doc ''a'', (doc ''b'')\<lparr>rapidfuzz_score := Some 3\<rparr>]"
  have n: "rapidfuzz_score (?h ! 0) = None" by (simp add: doc_def)
  have l: "0 < length ?h" by simp
  note t = missing_score_key_ranks_as_zero [OF l n, of "[0, 1]"]
  have "rank_by_rapidfuzz ?h [0, 1] = [1, 0]"
    by (simp add: rank_by_rapidfuzz_def sort_reverse_def score_key_def doc_def)
  with t n show ?thesis by blast
qed

section \<open>Claims about errors\<close>

text \<open>
  C6: a backend query error in one retrieval path is treated as zero results for that
  path and does not keep the other path from reporting. Once the database is connected:
  when the lexical query fails, the result carries no error entry, both lexical lists are
  empty and the semantic entry is what the semantic search gave; when the semantic query
  fails, the result carries no error entry, the semantic entry is empty and the lexical
  and the fuzzy list are reported as they are without the failure, with the records
  enriched. The semantic half rests on \<open>search_pinecone\<close>, written down from section 7.
\<close>

theorem backend_query_errors_degrade:
  assumes "pymongo_installed w" and "env_MONGO_URI w = Some uri" and "uri \<noteq> []"
    and "mongo_connect w uri = None"
  shows "(\<forall>e. mongo_find w (format_search_string w q) = Inl e \<longrightarrow>
            map_of (snd (search_products w q)) ''error'' = None \<and>
            map_of (snd (search_products w q)) ''direct_search'' = Some (JSearch 0 []) \<and>
            map_of (snd (search_products w q)) ''rapidfuzz_search'' = Some (JSearch 0 []) \<and>
            map_of (snd (search_products w q)) ''pinecone_search'' =
              Some (pinecone_entry w q) \<and>
            (\<forall>hits. pinecone_query w q 10 = Inr hits \<longrightarrow>
               pinecone_entry w q = JPine (length hits) hits)) \<and>
         (\<forall>e docs. pinecone_query w q 10 = Inl e \<and>
              mongo_find w (format_search_string w q) = Inr docs \<longrightarrow>
            map_of (snd (search_products w q)) ''error'' = None \<and>
            map_of (snd (search_products w q)) ''pinecone_search'' = Some (JPine 0 []) \<and>
            map_of (snd (search_products w q)) ''direct_search'' =
              Some (JSearch (length docs) [0..<length docs]) \<and>
            map_of (snd (search_products w q)) ''rapidfuzz_search'' =
              Some (JSearch (length docs)
                (rank_by_rapidfuzz (map (scored w q) (map (named w) docs))
                   [0..<length docs])) \<and>
            fst (search_products w q) = map (enriched w q) docs)"
proof (intro conjI allI impI)
  fix e assume f: "mongo_find w (format_search_string w q) = Inl e"
  note r = search_products_lexical_failure [OF assms f]
  show "map_of (snd (search_products w q)) ''error'' = None" by (simp add: r)
  show "map_of (snd (search_products w q)) ''direct_search'' = Some (JSearch 0 [])"
    by (simp add: r)
  show "map_of (snd (search_products w q)) ''rapidfuzz_search'' = Some (JSearch 0 [])"
    by (simp add: r)
  show "map_of (snd (search_products w q)) ''pinecone_search'' = Some (pinecone_entry w q)"
    by (simp add: r)
next
  fix e hits assume "pinecone_query w q 10 = Inr hits"
  then show "pinecone_entry w q = JPine (length hits) hits"
    by (simp add: pinecone_entry_def)
next
  fix e docs
  assume a: "pinecone_query w q 10 = Inl e \<and>
      mongo_find w (format_search_string w q) = Inr docs"
  then have f: "mongo_find w (format_search_string w q) = Inr docs" by simp
  from a have p: "pinecone_entry w q = JPine 0 []" by (simp add: pinecone_entry_def)
  note r = search_products_success [OF assms f]
  show "map_of (snd (search_products w q)) ''error'' = None" by (simp add: r)
  show "map_of (snd (search_products w q)) ''pinecone_search'' = Some (JPine 0 [])"
    by (simp add: r p)
  show "map_of (snd (search_products w q)) ''direct_search'' =
      Some (JSearch (length docs) [0..<length docs])"
    by (simp add: r)
  show "map_of (snd (search_products w q)) ''rapidfuzz_search'' =
      Some (JSearch (length docs)
        (rank_by_rapidfuzz (map (scored w q) (map (named w) docs)) [0..<length docs]))"
    by (simp add: r)
  show "fst (search_products w q) = map (enriched w q) docs" by (simp add: r)
qed

text \<open>
  The sample world with a failing text query, and the sample world with a failing vector
  query.
\<close>

theorem backend_query_errors_degrade_witness:
  "map_of (snd (search_products
       (sample_world\<lparr>mongo_find := \<lambda>s. Inl (OtherException ''text index required'')\<rparr>)
       [99])) ''pinecone_search'' = Some (JPine 1 [(''p1'', 1)]) \<and>
   map_of (snd (search_products
       (sample_world\<lparr>pinecone_query := \<lambda>s k. Inl (OtherException ''unreachable'')\<rparr>)
       [99])) ''direct_search'' = Some (JSearch 3 [0, 1, 2]) \<and>
   map_of (snd (search_products
       (sample_world\<lparr>pinecone_query := \<lambda>s k. Inl (OtherException ''unreachable'')\<rparr>)
       [99])) ''pinecone_search'' = Some (JPine 0 [])"
proof -
  let ?w1 = "sample_world\<lparr>mongo_find := \<lambda>s. Inl (OtherException ''text index required'')\<rparr>"
  let ?w2 = "sample_world\<lparr>pinecone_query := \<lambda>s k. Inl (OtherException ''unreachable'')\<rparr>"
  have c1: "pymongo_installed ?w1" "env_MONGO_URI ?w1 = Some ''mongodb://localhost/off''"
    "''mongodb://localhost/off'' \<noteq> []" "mongo_connect ?w1 ''mongodb://localhost/off'' = None"
    by (simp_all add: sample_world_def)
  have c2: "pymongo_installed ?w2" "env_MONGO_URI ?w2 = Some ''mongodb://localhost/off''"
    "''mongodb://localhost/off'' \<noteq> []" "mongo_connect ?w2 ''mongodb://localhost/off'' = None"
    by (simp_all add: sample_world_def)
  have f1: "mongo_find ?w1 (format_search_string ?w1 [99]) =
      Inl (OtherException ''text index required'')"
    by simp
  have p1: "pinecone_entry ?w1 [99] = JPine 1 [(''p1'', 1)]"
    by (simp add: pinecone_entry_def sample_world_def)
  have f2: "pinecone_query ?w2 [99] 10 = Inl (OtherException ''unreachable'') \<and>
      mongo_find ?w2 (format_search_string ?w2 [99]) = Inr sample_docs"
    by (simp add: sample_world_def)
  have l: "length sample_docs = 3" "[0..<3] = [0, 1, 2]"
    by (simp_all add: sample_docs_def upt_rec)
  from backend_query_errors_degrade [OF c1, of "[99]"] f1 p1
  have 1: "map_of (snd (search_products ?w1 [99])) ''pinecone_search'' =
      Some (JPine 1 [(''p1'', 1)])"
    by metis
  from backend_query_errors_degrade [OF c2, of "[99]"] f2
  have "map_of (snd (search_products ?w2 [99])) ''direct_search'' =
      Some (JSearch (length sample_docs) [0..<length sample_docs]) \<and>
      map_of (snd (search_products ?w2 [99])) ''pinecone_search'' = Some (JPine 0 [])"
    by blast
  with 1 l show ?thesis by simp
qed

text \<open>
  C7: an empty or whitespace-only query is rejected by \<^verbatim>\<open>main\<close> with exit status 1 and
  \<^verbatim>\<open>search_products\<close> is not called; any other query is handed to \<^verbatim>\<open>search_products\<close>
  once, unchanged.
\<close>

theorem main_rejects_blank_query:
  "(list_all py_isspace q \<longrightarrow> main w q = ([], 1)) \<and>
   (\<not> list_all py_isspace q \<longrightarrow> fst (main w q) = [q])"
  by (simp add: main_def Let_def)

text \<open>
  A space, a tab, a no-break space and an em space; the empty query; and a query of one
  letter, which is searched.
\<close>

theorem main_rejects_blank_query_witness:
  "list_all py_isspace [32, 9, 160, 8195] \<and> main sample_world [32, 9, 160, 8195] = ([], 1) \<and>
   main sample_world [] = ([], 1) \<and>
   \<not> list_all py_isspace [99] \<and> fst (main sample_world [99]) = [[99]]"
proof -
  have a: "list_all py_isspace [32, 9, 160, 8195]" by (simp add: py_isspace_def)
  have b: "list_all py_isspace []" by simp
  have c: "\<not> list_all py_isspace [99]" by (simp add: py_isspace_def)
  from main_rejects_blank_query [of "[32, 9, 160, 8195]" sample_world] a
    main_rejects_blank_query [of "[]" sample_world] b
    main_rejects_blank_query [of "[99]" sample_world] c
  show ?thesis by blast
qed

text \<open>
  C8: when \<^verbatim>\<open>MONGO_URI\<close> is unset or empty, or the connection to MongoDB fails, the
  result of \<^verbatim>\<open>search_products\<close> has the single key \<^verbatim>\<open>error\<close>: none of the three result
  lists is in it, and no product was fetched. With pymongo installed the message is
  \<^verbatim>\<open>MONGO_URI not set\<close>, or \<^verbatim>\<open>MongoDB connection failed:\<close> followed by the text of the
  exception for the two exception classes the inner handler names.
\<close>

theorem search_fails_without_backend:
  assumes "env_MONGO_URI w = None \<or> env_MONGO_URI w = Some [] \<or>
     (\<exists>uri e. env_MONGO_URI w = Some uri \<and> mongo_connect w uri = Some e)"
  shows "map fst (snd (search_products w q)) = [''error''] \<and>
         fst (search_products w q) = [] \<and>
         map_of (snd (search_products w q)) ''direct_search'' = None \<and>
         map_of (snd (search_products w q)) ''rapidfuzz_search'' = None \<and>
         map_of (snd (search_products w q)) ''pinecone_search'' = None \<and>
         (pymongo_installed w \<and> (env_MONGO_URI w = None \<or> env_MONGO_URI w = Some []) \<longrightarrow>
            snd (search_products w q) = [(''error'', JStr ''MONGO_URI not set'')]) \<and>
         (\<forall>uri m. pymongo_installed w \<and> env_MONGO_URI w = Some uri \<and> uri \<noteq> [] \<and>
              (mongo_connect w uri = Some (ConnectionFailure m) \<or>
               mongo_connect w uri = Some (ConfigurationError m)) \<longrightarrow>
            snd (search_products w q) =
              [(''error'', JStr (''MongoDB connection failed: '' @ m))])"
proof -
  from assms have u: "\<not> pymongo_installed w \<or> env_MONGO_URI w = None \<or>
      env_MONGO_URI w = Some [] \<or>
      (\<exists>uri e. env_MONGO_URI w = Some uri \<and> mongo_connect w uri = Some e)"
    by blast
  note k = search_products_unavailable [OF u, of q]
  from k have keys: "map fst (snd (search_products w q)) = [''error'']" by simp
  have n: "map_of (snd (search_products w q)) ''direct_search'' = None"
    "map_of (snd (search_products w q)) ''rapidfuzz_search'' = None"
    "map_of (snd (search_products w q)) ''pinecone_search'' = None"
    by (rule map_of_only_error [OF keys], simp)+
  have m1: "snd (search_products w q) = [(''error'', JStr ''MONGO_URI not set'')]"
    if "pymongo_installed w \<and> (env_MONGO_URI w = None \<or> env_MONGO_URI w = Some [])"
    using that by (auto simp: search_products_def error_result_def)
  have m2: "snd (search_products w q) =
      [(''error'', JStr (''MongoDB connection failed: '' @ m))]"
    if "pymongo_installed w \<and> env_MONGO_URI w = Some uri \<and> uri \<noteq> [] \<and>
        (mongo_connect w uri = Some (ConnectionFailure m) \<or>
         mongo_connect w uri = Some (ConfigurationError m))" for uri m
    using that by (auto simp: search_products_def error_result_def)
  from k n m1 m2 show ?thesis by blast
qed

text \<open>The sample world without the variable, and with a connection that times out.\<close>

theorem search_fails_without_backend_witness:
  "env_MONGO_URI (sample_world\<lparr>env_MONGO_URI := None\<rparr>) = None \<and>
   snd (search_products (sample_world\<lparr>env_MONGO_URI := None\<rparr>) [99]) =
     [(''error'', JStr ''MONGO_URI not set'')] \<and>
   snd (search_products
     (sample_world\<lparr>mongo_connect := \<lambda>u. Some (ConnectionFailure ''timed out'')\<rparr>) [99]) =
     [(''error'', JStr ''MongoDB connection failed: timed out'')]"
proof -
  let ?w1 = "sample_world\<lparr>env_MONGO_URI := None\<rparr>"
  let ?w2 = "sample_world\<lparr>mongo_connect := \<lambda>u. Some (ConnectionFailure ''timed out'')\<rparr>"
  have a1: "env_MONGO_URI ?w1 = None" by simp
  have i1: "pymongo_installed ?w1" by (simp add: sample_world_def)
  have a2: "pymongo_installed ?w2 \<and> env_MONGO_URI ?w2 = Some ''mongodb://localhost/off'' \<and>
      ''mongodb://localhost/off'' \<noteq> [] \<and>
      mongo_connect ?w2 ''mongodb://localhost/off'' = Some (ConnectionFailure ''timed out'')"
    by (simp add: sample_world_def)
  then have h2: "env_MONGO_URI ?w2 = None \<or> env_MONGO_URI ?w2 = Some [] \<or>
     (\<exists>uri e. env_MONGO_URI ?w2 = Some uri \<and> mongo_connect ?w2 uri = Some e)"
    by blast
  from search_fails_without_backend [of ?w1 "[99]"] a1 i1
  have 1: "snd (search_products ?w1 [99]) = [(''error'', JStr ''MONGO_URI not set'')]"
    by blast
  from search_fails_without_backend [OF h2, of "[99]"] a2
  have "snd (search_products ?w2 [99]) =
      [(''error'', JStr (''MongoDB connection failed: '' @ ''timed out''))]"
    by blast
  with 1 a1 show ?thesis by simp
qed

section \<open>Claims about the shared records\<close>

text \<open>
  C9: the list scored and sorted is a copy of the lexical list that holds the same record
  objects. After a search that reached the backend, the lexical list of the result is
  still the backend's answer in the backend's order, and each of its records now carries
  the \<^verbatim>\<open>rapidfuzz_score\<close> and the \<^verbatim>\<open>given_name\<close> written through the other list, its
  other fields unchanged; the fuzzy list refers to the same objects.
\<close>

theorem lexical_list_shares_scored_records:
  assumes "pymongo_installed w" and "env_MONGO_URI w = Some uri" and "uri \<noteq> []"
    and "mongo_connect w uri = None"
    and "mongo_find w (format_search_string w q) = Inr docs"
  shows "map_of (snd (search_products w q)) ''direct_search'' =
           Some (JSearch (length docs) [0..<length docs]) \<and>
         map ((!) (fst (search_products w q))) [0..<length docs] = map (enriched w q) docs \<and>
         (\<forall>i. i < length docs \<longrightarrow>
            rapidfuzz_score (fst (search_products w q) ! i) =
              Some (compute_rapidfuzz_score w q (named w (docs ! i))) \<and>
            given_name (fst (search_products w q) ! i) =
              Some (compute_given_name w (scored w q (named w (docs ! i)))) \<and>
            other_fields (fst (search_products w q) ! i) = other_fields (docs ! i)) \<and>
         (\<exists>fz. map_of (snd (search_products w q)) ''rapidfuzz_search'' =
                  Some (JSearch (length docs) fz) \<and>
               set fz = set [0..<length docs])"
proof -
  note r = search_products_success [OF assms]
  have 1: "map_of (snd (search_products w q)) ''direct_search'' =
      Some (JSearch (length docs) [0..<length docs])"
    by (simp add: r)
  have "map ((!) (map (enriched w q) docs)) [0..<length (map (enriched w q) docs)] =
      map (enriched w q) docs"
    by (rule map_nth)
  then have 2: "map ((!) (fst (search_products w q))) [0..<length docs] =
      map (enriched w q) docs"
    by (simp add: r)
  have 3: "rapidfuzz_score (fst (search_products w q) ! i) =
        Some (compute_rapidfuzz_score w q (named w (docs ! i))) \<and>
      given_name (fst (search_products w q) ! i) =
        Some (compute_given_name w (scored w q (named w (docs ! i)))) \<and>
      other_fields (fst (search_products w q) ! i) = other_fields (docs ! i)"
    if "i < length docs" for i
    using that by (simp add: r enriched_def named_def scored_def)
  have 4: "\<exists>fz. map_of (snd (search_products w q)) ''rapidfuzz_search'' =
          Some (JSearch (length docs) fz) \<and> set fz = set [0..<length docs]"
    by (simp add: r rank_by_rapidfuzz_def set_sort_reverse)
  from 1 2 3 4 show ?thesis by blast
qed

text \<open>The three sample documents, in the order of the backend, with scores and names.\<close>

theorem lexical_list_shares_scored_records_witness:
  "map_of (snd (search_products sample_world [77, 44, 50])) ''direct_search'' =
     Some (JSearch 3 [0, 1, 2]) \<and>
   map rapidfuzz_score (map ((!) (fst (search_products sample_world [77, 44, 50]))) [0, 1, 2]) =
     [Some 7, Some 17, Some 7] \<and>
   map given_name (map ((!) (fst (search_products sample_world [77, 44, 50]))) [0, 1, 2]) =
     [Some ''cola'', Some ''milk chocolate'', Some ''soda'']"
proof -
  have f: "mongo_find sample_world (format_search_string sample_world [77, 44, 50]) =
      Inr sample_docs"
    by (simp add: sample_world_def)
  have l: "length sample_docs = 3" "[0..<3] = [0, 1, 2]"
    by (simp_all add: sample_docs_def upt_rec)
  from lexical_list_shares_scored_records [OF sample_connected f]
  have "map_of (snd (search_products sample_world [77, 44, 50])) ''direct_search'' =
        Some (JSearch (length sample_docs) [0..<length sample_docs]) \<and>
      map ((!) (fst (search_products sample_world [77, 44, 50]))) [0..<length sample_docs] =
        map (enriched sample_world [77, 44, 50]) sample_docs"
    by blast
  then show ?thesis
    unfolding l
    by (simp add: sample_docs_def enriched_def named_def scored_def sample_world_def
        sample_score_def name_of_def doc_def)
qed

text \<open>
  C10: the fuzzy list is a permutation of the lexical list. Every call of
  \<^verbatim>\<open>search_products\<close> either returns the error dictionary, with neither list, or returns
  both lists with their lengths as counts; then the two lists hold the same references,
  each once, the counts are equal, and the references are exactly those of the store.
\<close>

theorem rapidfuzz_list_is_permutation:
  "(map fst (snd (search_products w q)) = [''error''] \<and>
      map_of (snd (search_products w q)) ''direct_search'' = None \<and>
      map_of (snd (search_products w q)) ''rapidfuzz_search'' = None) \<or>
   (\<exists>l1 l2. map_of (snd (search_products w q)) ''direct_search'' =
               Some (JSearch (length l1) l1) \<and>
            map_of (snd (search_products w q)) ''rapidfuzz_search'' =
               Some (JSearch (length l2) l2) \<and>
            mset l2 = mset l1 \<and> length l2 = length l1 \<and> distinct l1 \<and> distinct l2 \<and>
            set l1 = {..<length (fst (search_products w q))})"
proof (cases rule: search_products_cases [of w q])
  case unavailable
  then show ?thesis by (simp add: map_of_only_error)
next
  case (lexical_failure uri e)
  note r = search_products_lexical_failure [OF lexical_failure]
  have "map_of (snd (search_products w q)) ''direct_search'' = Some (JSearch (length []) []) \<and>
      map_of (snd (search_products w q)) ''rapidfuzz_search'' = Some (JSearch (length []) []) \<and>
      mset ([] :: addr list) = mset [] \<and> length ([] :: addr list) = length ([] :: addr list) \<and>
      distinct ([] :: addr list) \<and> distinct ([] :: addr list) \<and>
      set ([] :: addr list) = {..<length (fst (search_products w q))}"
    by (simp add: r)
  then show ?thesis by blast
next
  case (success uri docs)
  note r = search_products_success [OF success]
  let ?l1 = "[0..<length docs]"
  let ?l2 = "rank_by_rapidfuzz (map (scored w q) (map (named w) docs)) [0..<length docs]"
  have len: "length ?l2 = length docs"
    by (simp add: rank_by_rapidfuzz_def length_sort_reverse)
  have "map_of (snd (search_products w q)) ''direct_search'' = Some (JSearch (length ?l1) ?l1)"
    by (simp add: r)
  moreover have "map_of (snd (search_products w q)) ''rapidfuzz_search'' =
      Some (JSearch (length ?l2) ?l2)"
    by (simp add: r len del: map_map)
  moreover have "mset ?l2 = mset ?l1" by (rule mset_rank)
  moreover have "length ?l2 = length ?l1" by (simp add: len del: map_map)
  moreover have "distinct ?l1" by simp
  moreover have "distinct ?l2"
    by (simp add: rank_by_rapidfuzz_def distinct_sort_reverse)
  moreover have "set ?l1 = {..<length (fst (search_products w q))}"
    by (auto simp: r)
  ultimately show ?thesis by blast
qed

text \<open>In the sample world the fuzzy list is the lexical list with its first two records swapped.\<close>

theorem rapidfuzz_list_is_permutation_witness:
  "map_of (snd (search_products sample_world [99])) ''direct_search'' =
     Some (JSearch 3 [0, 1, 2]) \<and>
   map_of (snd (search_products sample_world [99])) ''rapidfuzz_search'' =
     Some (JSearch 3 [1, 0, 2]) \<and>
   mset [1, 0, 2] = mset [0, 1, (2::nat)]"
proof -
  have f: "mongo_find sample_world (format_search_string sample_world [99]) = Inr sample_docs"
    by (simp add: sample_world_def)
  note r = search_products_success [OF sample_connected f]
  have k: "map (score_key (map (scored sample_world [99]) (map (named sample_world) sample_docs)))
      [0, 1, 2] = [5, 15, 5]"
    by (simp add: scored_def named_def score_key_def sample_docs_def sample_world_def
        sample_score_def name_of_def doc_def)
  have l: "length sample_docs = 3" "[0..<3] = [0, 1, 2]"
    by (simp_all add: sample_docs_def upt_rec)
  have d: "map_of (snd (search_products sample_world [99])) ''direct_search'' =
      Some (JSearch 3 [0, 1, 2])"
    by (simp add: r l)
  have z: "map_of (snd (search_products sample_world [99])) ''rapidfuzz_search'' =
      Some (JSearch 3 [1, 0, 2])"
    using k by (simp add: r l rank_by_rapidfuzz_def sort_reverse_def)
  from rapidfuzz_list_is_permutation [of sample_world "[99]"] d z
  have "mset [1, 0, 2] = mset [0, 1, (2::nat)]"
    by auto
  with d z show ?thesis by blast
qed

end
